theory Spec2Isabelle
  imports Complex_Main "HOL-Library.Sublist" "HOL-Library.FSet"
begin

section \<open>Python strings\<close>

text \<open>
  Strings are byte lists. \<open>str.lower()\<close> is modelled on the ASCII letters, which is what
  every keyword, skill token and title pattern of \<open>vector_store.py\<close> consists of; bytes
  outside \<open>A..Z\<close> are left alone. Python's \<open>k in t\<close> on strings is \<^const>\<open>sublist\<close>.
\<close>

definition lower_char :: "char \<Rightarrow> char" where
  "lower_char c =
     (let n = (of_char c :: nat) in if 65 \<le> n \<and> n \<le> 90 then char_of (n + 32) else c)"

definition lower :: "string \<Rightarrow> string" where
  "lower s = map lower_char s"

text \<open>\<open>s.split(',')\<close>: always at least one piece, empty pieces are kept, nothing is stripped.\<close>

fun split_comma :: "string \<Rightarrow> string list" where
  "split_comma [] = [[]]"
| "split_comma (c # cs) =
     (if c = CHR '','' then [] # split_comma cs
      else (case split_comma cs of
              [] \<Rightarrow> [[c]]
            | w # ws \<Rightarrow> (c # w) # ws))"

section \<open>Role classifier: \<open>VectorStore.detect_role\<close>\<close>

definition fullstack_keywords :: "string list" where
  "fullstack_keywords =
     [''full stack'', ''full-stack'', ''react'', ''angular'', ''vue'', ''spring boot'',
      ''node'', ''express'', ''typescript'', ''javascript'', ''java'', ''frontend'',
      ''backend'', ''web developer'', ''software engineer'', ''developer'']"

definition devops_keywords :: "string list" where
  "devops_keywords =
     [''devops'', ''sre'', ''site reliability'', ''terraform'', ''ansible'', ''jenkins'',
      ''kubernetes'', ''eks'', ''helm'', ''argo'', ''ci/cd'', ''docker'', ''infrastructure'',
      ''platform engineer'', ''cloud engineer'', ''aws'', ''azure'', ''gcp'']"

text \<open>\<open>sum(1 for k in keywords if k in t)\<close>; the keyword sets are written as the lists of
  their (pairwise different) members.\<close>

definition hits :: "string list \<Rightarrow> string \<Rightarrow> nat" where
  "hits keywords t = length (filter (\<lambda>k. sublist k t) keywords)"

definition fs_hits :: "string \<Rightarrow> nat" where
  "fs_hits text = hits fullstack_keywords (lower text)"

definition dv_hits :: "string \<Rightarrow> nat" where
  "dv_hits text = hits devops_keywords (lower text)"

definition detect_role :: "string \<Rightarrow> string" where
  "detect_role text =
     (if fs_hits text = 0 \<and> dv_hits text = 0 then ''general''
      else if real (fs_hits text) > real (dv_hits text) * 2.0 then ''fullstack''
      else if real (dv_hits text) > real (fs_hits text) * 2.0 then ''devops''
      else ''general'')"

section \<open>Skill extractor and skill overlap\<close>

definition tech_skills :: "string list" where
  "tech_skills =
     [''java'', ''python'', ''javascript'', ''typescript'', ''react'', ''angular'', ''vue'',
      ''spring boot'', ''node.js'', ''express'', ''postgresql'', ''mongodb'', ''redis'',
      ''aws'', ''azure'', ''gcp'', ''docker'', ''kubernetes'', ''jenkins'', ''git'',
      ''hibernate'', ''junit'', ''jdbc'', ''html'', ''css'', ''bootstrap'']"

definition extract_skills :: "string \<Rightarrow> string fset" where
  "extract_skills resume_text =
     fset_of_list (filter (\<lambda>skill. sublist skill (lower resume_text)) tech_skills)"

text \<open>\<open>VectorStore._jaccard_similarity\<close>. Python's float division of two small integers
  is taken as the quotient of reals.\<close>

definition jaccard_similarity :: "string fset \<Rightarrow> string fset \<Rightarrow> real" where
  "jaccard_similarity set1 set2 =
     (if set1 = {||} \<and> set2 = {||} then 0.0
      else let intersection = fcard (set1 |\<inter>| set2);
               union = fcard (set1 |\<union>| set2)
           in if union > 0 then real intersection / real union else 0.0)"

section \<open>Data model\<close>

text \<open>
  A cell of a text column of the job table as pandas reads it: a string, or \<open>NaN\<close> for an
  empty CSV field. A row of \<open>job_metadata\<close> has the columns \<open>id, title, company, location\<close>
  and, when the table carries that column, \<open>skills\<close> (\<open>None\<close>: no such key in the row).
  A row of the CSV has \<open>jd_text\<close> as well; a search result is the metadata row with
  \<open>score\<close>, \<open>similarity\<close> and \<open>skillOverlap\<close> added by \<open>job_info.update\<close>.
\<close>

datatype cell = NaN | Text string

record job_row =
  job_id :: int
  title :: cell
  company :: cell
  location :: cell
  skills :: "cell option"

record csv_row = job_row +
  jd_text :: cell

record result = job_row +
  score :: real
  similarity :: real
  skillOverlap :: real

datatype error =
    ValueError
  | FileNotFoundError
  | IndexError
  | AttributeError
  | AssertionError
  | TypeError
  | ProviderError
  | SaveError

text \<open>
  The embedding provider and the flat inner-product index are external. For a query
  text, \<open>neighbours\<close> is what the index holds for it: the (inner product, row) pairs of
  all stored vectors, best first. Scores are reals, not floats.
\<close>

record faiss_index =
  d :: nat
  ntotal :: nat
  neighbours :: "string \<Rightarrow> (real \<times> int) list"

record vector_store =
  model_name :: string
  index :: "faiss_index option"
  job_metadata :: "job_row list option"

record fingerprint =
  fp_model_name :: string
  embedding_dim :: "nat option"
  source_csv :: string

text \<open>
  The files under \<open>data_dir\<close>. The two CSVs are only read: \<open>None\<close> is a file that does not
  exist. The three files the builder writes are missing, whole, or damaged: opened for
  writing, so emptied, by a write that then raised.
\<close>

datatype 'a artifact = Missing | Damaged | Holds 'a

record disk =
  jobs_enhanced_csv :: "csv_row list option"
  jobs_csv :: "csv_row list option"
  index_file :: "faiss_index artifact"
  metadata_file :: "job_row list artifact"
  model_meta_file :: "fingerprint artifact"

text \<open>The CSV the store reads: \<open>jobs_enhanced.csv\<close> first, \<open>jobs.csv\<close> otherwise.\<close>

definition csv_name :: "disk \<Rightarrow> string" where
  "csv_name dk =
     (if jobs_enhanced_csv dk \<noteq> None then ''jobs_enhanced.csv'' else ''jobs.csv'')"

definition read_jobs_csv :: "disk \<Rightarrow> error + csv_row list" where
  "read_jobs_csv dk =
     (case jobs_enhanced_csv dk of
        Some df \<Rightarrow> Inr df
      | None \<Rightarrow> (case jobs_csv dk of
                   Some df \<Rightarrow> Inr df
                 | None \<Rightarrow> Inl FileNotFoundError))"

text \<open>\<open>DataFrame.iloc[i]\<close>: a negative position counts from the end, a position outside
  the table raises.\<close>

definition iloc :: "'a list \<Rightarrow> int \<Rightarrow> error + 'a" where
  "iloc rows i =
     (let n = int (length rows); j = (if i < 0 then n + i else i)
      in if 0 \<le> j \<and> j < n then Inr (rows ! nat j) else Inl IndexError)"

text \<open>
  \<open>index.search(query_embedding, k)\<close>: the index rejects \<open>k \<le> 0\<close>; otherwise it returns
  exactly \<open>k\<close> pairs, the best \<open>k\<close> neighbours, padded with row \<open>-1\<close> and the lowest
  score when it stores fewer than \<open>k\<close> vectors.
\<close>

definition pad_score :: real where
  "pad_score = - 340282346638528859811704183484516925440"

definition index_search :: "faiss_index \<Rightarrow> string \<Rightarrow> int \<Rightarrow> error + (real \<times> int) list" where
  "index_search ix query k =
     (if k \<le> 0 then Inl AssertionError
      else Inr (take (nat k) (neighbours ix query)
                @ replicate (nat k - length (neighbours ix query)) (pad_score, - 1)))"

section \<open>Search engine: \<open>VectorStore.search\<close>\<close>

subsection \<open>Role pre-filter\<close>

text \<open>
  \<open>title.str.contains(pattern, case=False, na=False)\<close>. Both patterns are alternations of
  literal words, \<open>full[- ]?stack\<close> standing for three of them, so a title matches when its
  lower-cased text contains one of the alternatives; a \<open>NaN\<close> title does not match.
\<close>

definition fullstack_pattern :: "string list" where
  "fullstack_pattern =
     [''fullstack'', ''full-stack'', ''full stack'', ''frontend'', ''backend'',
      ''software engineer'', ''java developer'', ''web developer'', ''developer'']"

definition devops_pattern :: "string list" where
  "devops_pattern =
     [''devops'', ''sre'', ''site reliability'', ''platform'', ''infra'', ''cloud engineer'']"

definition str_contains :: "string list \<Rightarrow> cell \<Rightarrow> bool" where
  "str_contains alternatives c =
     (case c of
        NaN \<Rightarrow> False
      | Text t \<Rightarrow> list_ex (\<lambda>p. sublist p (lower t)) alternatives)"

text \<open>The index labels of \<open>filtered_metadata\<close>: the positions of the rows the mask keeps,
  all positions when the role is neither \<open>fullstack\<close> nor \<open>devops\<close>.\<close>

definition filtered_index :: "string \<Rightarrow> job_row list \<Rightarrow> int list" where
  "filtered_index role meta =
     (if role = ''fullstack''
        then map int (filter (\<lambda>i. str_contains fullstack_pattern (title (meta ! i))) [0..<length meta])
      else if role = ''devops''
        then map int (filter (\<lambda>i. str_contains devops_pattern (title (meta ! i))) [0..<length meta])
      else map int [0..<length meta])"

subsection \<open>One candidate of the scoring loop\<close>

definition min_threshold :: "string \<Rightarrow> real" where
  "min_threshold role =
     (if role = ''fullstack'' then 0.25
      else if role = ''devops'' then 0.22
      else 0.20)"

definition composite :: "real \<Rightarrow> real \<Rightarrow> real" where
  "composite semantic_score skill_score =
     min ((0.70 * semantic_score + 0.30 * skill_score) * 1.1) 1.0"

text \<open>The job's skill set: the stored \<open>skills\<close> cell when the row has one and it is truthy
  (\<open>NaN\<close> is truthy and has no \<open>lower\<close>), the skills found in the description otherwise.\<close>

definition job_skills_of :: "job_row \<Rightarrow> string \<Rightarrow> error + string fset" where
  "job_skills_of job_info jd =
     (case skills job_info of
        None \<Rightarrow> Inr (extract_skills jd)
      | Some NaN \<Rightarrow> Inl AttributeError
      | Some (Text s) \<Rightarrow>
          (if s = [] then Inr (extract_skills jd)
           else Inr (fset_of_list (split_comma (lower s)))))"

text \<open>
  The loop body up to the composite score (lines 329 to 368): the candidate is skipped
  (\<open>continue\<close>), the body raises, or the candidate reaches the threshold test with its
  metadata row, its skill overlap and its composite score. \<open>seen_jobs\<close> is returned as
  the body leaves it.
\<close>

datatype 'a gate = Skip "int set" | Raise error | Pass 'a "int set"

definition prepare_candidate ::
  "job_row list \<Rightarrow> csv_row list \<Rightarrow> int list \<Rightarrow> string \<Rightarrow> string fset \<Rightarrow> int set
     \<Rightarrow> real \<times> int \<Rightarrow> (job_row \<times> real \<times> real) gate" where
  "prepare_candidate meta df filtered role resume_skills seen_jobs cand =
     (case cand of (similarity_score, idx) \<Rightarrow>
        if idx \<ge> int (length meta) \<or> idx \<in> seen_jobs then Skip seen_jobs
        else (case iloc meta idx of
                Inl e \<Rightarrow> Raise e
              | Inr job_info \<Rightarrow>
                  if job_id job_info \<in> seen_jobs then Skip seen_jobs
                  else let seen_jobs' = insert (job_id job_info) seen_jobs in
                    if length filtered > 0 \<and> idx \<notin> set filtered \<and> role \<noteq> ''general''
                    then Skip seen_jobs'
                    else (case iloc df idx of
                            Inl e \<Rightarrow> Raise e
                          | Inr row \<Rightarrow>
                             (case jd_text row of
                                NaN \<Rightarrow> Raise AttributeError
                              | Text jd \<Rightarrow>
                                 (case title job_info of
                                    NaN \<Rightarrow> Raise AttributeError
                                  | Text job_title \<Rightarrow>
                                     (case job_skills_of job_info jd of
                                        Inl e \<Rightarrow> Raise e
                                      | Inr job_skills \<Rightarrow>
                                          let skill_overlap =
                                                jaccard_similarity resume_skills job_skills
                                          in Pass (job_info, skill_overlap,
                                                   composite similarity_score skill_overlap)
                                                  seen_jobs'))))))"

text \<open>The whole loop body: the threshold test (lines 370 to 380) decides between
  \<open>continue\<close> and \<open>results.append\<close>.\<close>

datatype outcome = Skipped "int set" | Raised error | Accepted result "int set"

definition score_candidate ::
  "job_row list \<Rightarrow> csv_row list \<Rightarrow> int list \<Rightarrow> string \<Rightarrow> int \<Rightarrow> string fset
     \<Rightarrow> result list \<Rightarrow> int set \<Rightarrow> real \<times> int \<Rightarrow> outcome" where
  "score_candidate meta df filtered role top_k resume_skills results seen_jobs cand =
     (case prepare_candidate meta df filtered role resume_skills seen_jobs cand of
        Skip seen_jobs' \<Rightarrow> Skipped seen_jobs'
      | Raise e \<Rightarrow> Raised e
      | Pass (job_info, skill_overlap, composite_score) seen_jobs' \<Rightarrow>
          if composite_score < min_threshold role
             \<and> (int (length results) \<ge> top_k \<or> composite_score < 0.15)
          then Skipped seen_jobs'
          else Accepted (job_row.extend job_info
                           (result.fields composite_score (fst cand) skill_overlap))
                        seen_jobs')"

subsection \<open>The loops and the search\<close>

fun candidate_loop ::
  "job_row list \<Rightarrow> csv_row list \<Rightarrow> int list \<Rightarrow> string \<Rightarrow> int \<Rightarrow> string fset
     \<Rightarrow> (real \<times> int) list \<Rightarrow> result list \<Rightarrow> int set \<Rightarrow> error + result list" where
  "candidate_loop meta df filtered role top_k resume_skills [] results seen_jobs = Inr results"
| "candidate_loop meta df filtered role top_k resume_skills (cand # rest) results seen_jobs =
     (case score_candidate meta df filtered role top_k resume_skills results seen_jobs cand of
        Raised e \<Rightarrow> Inl e
      | Skipped seen_jobs' \<Rightarrow>
          candidate_loop meta df filtered role top_k resume_skills rest results seen_jobs'
      | Accepted job_info seen_jobs' \<Rightarrow>
          (let results' = results @ [job_info]
           in if int (length results') \<ge> top_k then Inr results'
              else candidate_loop meta df filtered role top_k resume_skills rest results'
                     seen_jobs'))"

text \<open>The URL-validation loop, which validates nothing and copies jobs until it has
  \<open>top_k\<close> of them.\<close>

fun validate_loop :: "int \<Rightarrow> result list \<Rightarrow> result list \<Rightarrow> result list" where
  "validate_loop top_k [] validated_results = validated_results"
| "validate_loop top_k (job # rest) validated_results =
     (let validated_results' = validated_results @ [job]
      in if int (length validated_results') \<ge> top_k then validated_results'
         else validate_loop top_k rest validated_results')"

definition resolve_role :: "string option \<Rightarrow> string \<Rightarrow> string" where
  "resolve_role role query = (case role of None \<Rightarrow> detect_role query | Some r \<Rightarrow> r)"

definition search_k :: "int \<Rightarrow> job_row list \<Rightarrow> int" where
  "search_k top_k meta = min (top_k * 20) (int (length meta))"

text \<open>\<open>results.sort(key=score, reverse=True)\<close> is stable, as \<^const>\<open>sort_key\<close> on the
  negated score is.\<close>

definition search ::
  "vector_store \<Rightarrow> disk \<Rightarrow> string \<Rightarrow> int \<Rightarrow> string option \<Rightarrow> error + result list" where
  "search vs dk query top_k role_arg =
     (case index vs of
        None \<Rightarrow> Inl ValueError
      | Some ix \<Rightarrow>
     (case job_metadata vs of
        None \<Rightarrow> Inl ValueError
      | Some meta \<Rightarrow>
          let role = resolve_role role_arg query;
              filtered = filtered_index role meta
          in (case index_search ix query (search_k top_k meta) of
                Inl e \<Rightarrow> Inl e
              | Inr candidates \<Rightarrow>
             (case read_jobs_csv dk of
                Inl e \<Rightarrow> Inl e
              | Inr df \<Rightarrow>
                 let resume_skills = extract_skills query
                 in (case candidate_loop meta df filtered role top_k resume_skills
                            candidates [] {} of
                       Inl e \<Rightarrow> Inl e
                     | Inr results \<Rightarrow>
                         let ranked = sort_key (\<lambda>r. - score r) results;
                             checked = take (nat (min (top_k * 2) (int (length ranked)))) ranked;
                             validated_results = validate_loop top_k checked []
                         in Inr (take (nat top_k) validated_results))))))"

section \<open>Index builder: \<open>VectorStore.build_index\<close>\<close>

text \<open>
  What the builder cannot decide by itself is its environment: whether the embedding
  provider accepts the descriptions (\<open>encode\<close>, normalise, \<open>IndexFlatIP.add\<close>, giving the
  index or raising), and how each of the three writes ends. A write is done, or it
  raises before it touches the file (\<open>os.makedirs\<close> or \<open>open\<close> fails, no parquet engine),
  or it raises after it has opened the file for writing, which leaves the file damaged.
\<close>

datatype write_result = Written | Refused | Torn

record build_env =
  encode_index :: "cell list \<Rightarrow> faiss_index option"
  write_index :: write_result
  to_parquet :: write_result
  write_json :: write_result

definition write_file :: "write_result \<Rightarrow> 'a \<Rightarrow> 'a artifact \<Rightarrow> error option \<times> 'a artifact" where
  "write_file w content old =
     (case w of
        Written \<Rightarrow> (None, Holds content)
      | Refused \<Rightarrow> (Some SaveError, old)
      | Torn \<Rightarrow> (Some SaveError, Damaged))"

text \<open>The three savers return the exception they re-raise, if any, and the disk as they
  leave it. An index or a metadata table that is not there cannot be written.\<close>

definition save_index :: "build_env \<Rightarrow> vector_store \<Rightarrow> disk \<Rightarrow> error option \<times> disk" where
  "save_index env vs dk =
     (case index vs of
        None \<Rightarrow> (Some TypeError, dk)
      | Some ix \<Rightarrow>
          (case write_file (write_index env) ix (index_file dk) of
             (err, f) \<Rightarrow> (err, dk\<lparr>index_file := f\<rparr>)))"

definition save_metadata :: "build_env \<Rightarrow> vector_store \<Rightarrow> disk \<Rightarrow> error option \<times> disk" where
  "save_metadata env vs dk =
     (case job_metadata vs of
        None \<Rightarrow> (Some AttributeError, dk)
      | Some meta \<Rightarrow>
          (case write_file (to_parquet env) meta (metadata_file dk) of
             (err, f) \<Rightarrow> (err, dk\<lparr>metadata_file := f\<rparr>)))"

definition save_model_fingerprint ::
  "build_env \<Rightarrow> vector_store \<Rightarrow> string \<Rightarrow> disk \<Rightarrow> error option \<times> disk" where
  "save_model_fingerprint env vs source dk =
     (let meta = \<lparr>fp_model_name = model_name vs,
                  embedding_dim = map_option d (index vs),
                  source_csv = source\<rparr>
      in (case write_file (write_json env) meta (model_meta_file dk) of
            (err, f) \<Rightarrow> (err, dk\<lparr>model_meta_file := f\<rparr>)))"

text \<open>The builder returns the exception it raised, if any, with the store object and the
  disk as it leaves them.\<close>

definition build_index ::
  "build_env \<Rightarrow> vector_store \<Rightarrow> disk \<Rightarrow> error option \<times> vector_store \<times> disk" where
  "build_index env vs dk =
     (case read_jobs_csv dk of
        Inl e \<Rightarrow> (Some e, vs, dk)
      | Inr df \<Rightarrow>
          let vs1 = vs\<lparr>job_metadata := Some (map job_row.truncate df)\<rparr>
          in (case encode_index env (map jd_text df) of
                None \<Rightarrow> (Some ProviderError, vs1, dk)
              | Some ix \<Rightarrow>
                  let vs2 = vs1\<lparr>index := Some ix\<rparr>
                  in (case save_index env vs2 dk of
                        (Some e, dk1) \<Rightarrow> (Some e, vs2, dk1)
                      | (None, dk1) \<Rightarrow>
                     (case save_metadata env vs2 dk1 of
                        (Some e, dk2) \<Rightarrow> (Some e, vs2, dk2)
                      | (None, dk2) \<Rightarrow>
                     (case save_model_fingerprint env vs2 (csv_name dk) dk2 of
                        (err, dk3) \<Rightarrow> (err, vs2, dk3))))))"


section \<open>A two-job corpus\<close>

text \<open>
  The corpus of the specification's scenario, with the two job ids and the answer of the
  index left open: a Java backend job in row 0 and a DevOps job in row 1.
\<close>

definition ex_csv :: "int \<Rightarrow> int \<Rightarrow> csv_row list" where
  "ex_csv id0 id1 =
     [\<lparr>job_id = id0, title = Text ''Java Backend Developer'', company = Text ''Acme'',
       location = Text ''Remote'', skills = Some (Text ''java,spring''),
       jd_text = Text ''Build services in Java and Spring Boot''\<rparr>,
      \<lparr>job_id = id1, title = Text ''DevOps Engineer'', company = Text ''Initech'',
       location = Text ''Berlin'', skills = Some (Text ''terraform,docker''),
       jd_text = Text ''Run Terraform and Docker in production''\<rparr>]"

definition ex_meta :: "int \<Rightarrow> int \<Rightarrow> job_row list" where
  "ex_meta id0 id1 = map job_row.truncate (ex_csv id0 id1)"

definition ex_index :: "(real \<times> int) list \<Rightarrow> faiss_index" where
  "ex_index answer = \<lparr>d = 384, ntotal = 2, neighbours = (\<lambda>query. answer)\<rparr>"

definition ex_store :: "int \<Rightarrow> int \<Rightarrow> (real \<times> int) list \<Rightarrow> vector_store" where
  "ex_store id0 id1 answer =
     \<lparr>model_name = ''all-MiniLM-L6-v2'', index = Some (ex_index answer),
      job_metadata = Some (ex_meta id0 id1)\<rparr>"

definition ex_disk :: "int \<Rightarrow> int \<Rightarrow> disk" where
  "ex_disk id0 id1 =
     \<lparr>jobs_enhanced_csv = None, jobs_csv = Some (ex_csv id0 id1), index_file = Missing,
      metadata_file = Missing, model_meta_file = Missing\<rparr>"

text \<open>The same corpus with gaps in its second row: the skills cell and the description
  are as given, so either can be made \<open>NaN\<close>.\<close>

definition ex_gap_csv :: "cell \<Rightarrow> cell \<Rightarrow> csv_row list" where
  "ex_gap_csv skills_cell description =
     [\<lparr>job_id = 10, title = Text ''Java Backend Developer'', company = Text ''Acme'',
       location = Text ''Remote'', skills = Some (Text ''java,spring''),
       jd_text = Text ''Build services in Java and Spring Boot''\<rparr>,
      \<lparr>job_id = 20, title = Text ''DevOps Engineer'', company = Text ''Initech'',
       location = Text ''Berlin'', skills = Some skills_cell,
       jd_text = description\<rparr>]"


definition ex_gap_disk :: "cell \<Rightarrow> cell \<Rightarrow> disk" where
  "ex_gap_disk skills_cell description =
     \<lparr>jobs_enhanced_csv = None, jobs_csv = Some (ex_gap_csv skills_cell description),
      index_file = Missing, metadata_file = Missing, model_meta_file = Missing\<rparr>"

text \<open>A store that was never built, a store whose build stopped after the metadata were
  set, a store over an empty corpus, and an environment whose embedding provider takes
  text only and whose three writes end as given.\<close>

definition ex_fresh :: vector_store where
  "ex_fresh = \<lparr>model_name = ''all-MiniLM-L6-v2'', index = None, job_metadata = None\<rparr>"




definition ex_env :: "write_result \<Rightarrow> write_result \<Rightarrow> write_result \<Rightarrow> build_env" where
  "ex_env w1 w2 w3 =
     \<lparr>encode_index =
        (\<lambda>descriptions. if NaN \<in> set descriptions then None else Some (ex_index [])),
      write_index = w1, to_parquet = w2, write_json = w3\<rparr>"

section \<open>Properties of the role classifier and of the skill overlap\<close>

lemma fs_hits_empty: "fs_hits [] = 0"
  by (simp add: fs_hits_def lower_def hits_def fullstack_keywords_def)

lemma dv_hits_empty: "dv_hits [] = 0"
  by (simp add: dv_hits_def lower_def hits_def devops_keywords_def)

lemma twice_as_real: "real a > real b * 2.0 \<longleftrightarrow> a > 2 * b"
proof -
  have "real b * 2.0 = real (2 * b)" by simp
  then show ?thesis by (simp only: of_nat_less_iff)
qed

text \<open>
  Claim C3. For every text, \<open>detect_role\<close> answers \<open>fullstack\<close>, \<open>devops\<close> or \<open>general\<close>. It
  answers \<open>general\<close> when no keyword of either set occurs in the text, so for the empty
  text; \<open>fullstack\<close> exactly when the number of fullstack keywords in the text exceeds
  twice the number of devops keywords; \<open>devops\<close> exactly when the devops number exceeds
  twice the fullstack number; and \<open>general\<close> in every remaining case.
\<close>

theorem detect_role_rule:
  "detect_role t \<in> {''fullstack'', ''devops'', ''general''}
   \<and> (fs_hits t = 0 \<and> dv_hits t = 0 \<longrightarrow> detect_role t = ''general'')
   \<and> detect_role [] = ''general''
   \<and> (detect_role t = ''fullstack'' \<longleftrightarrow> fs_hits t > 2 * dv_hits t)
   \<and> (detect_role t = ''devops'' \<longleftrightarrow> dv_hits t > 2 * fs_hits t)
   \<and> (\<not> fs_hits t > 2 * dv_hits t \<and> \<not> dv_hits t > 2 * fs_hits t
        \<longrightarrow> detect_role t = ''general'')"
proof -
  have empty: "detect_role [] = ''general''"
    by (simp add: detect_role_def fs_hits_empty dv_hits_empty)
  have rule: "detect_role t =
     (if fs_hits t = 0 \<and> dv_hits t = 0 then ''general''
      else if fs_hits t > 2 * dv_hits t then ''fullstack''
      else if dv_hits t > 2 * fs_hits t then ''devops''
      else ''general'')"
    unfolding detect_role_def twice_as_real ..
  show ?thesis
    unfolding rule using empty by auto
qed

theorem detect_role_rule_witness:
  "fs_hits ''Senior React Developer'' = 2 \<and> dv_hits ''Senior React Developer'' = 0
   \<and> detect_role ''Senior React Developer'' = ''fullstack''
   \<and> fs_hits ''Docker and Java'' = 1 \<and> dv_hits ''Docker and Java'' = 1
   \<and> detect_role ''Docker and Java'' = ''general''"
proof -
  have a: "fs_hits ''Senior React Developer'' = 2" "dv_hits ''Senior React Developer'' = 0"
    by code_simp+
  have b: "fs_hits ''Docker and Java'' = 1" "dv_hits ''Docker and Java'' = 1"
    by code_simp+
  from detect_role_rule [of "''Senior React Developer''"] a
  have c: "detect_role ''Senior React Developer'' = ''fullstack''" by simp
  from detect_role_rule [of "''Docker and Java''"] b
  have e: "detect_role ''Docker and Java'' = ''general''" by simp
  from a b c e show ?thesis by blast
qed

lemma fcard_pos: "A \<noteq> {||} \<Longrightarrow> 0 < fcard A"
  by (metis fcard_fempty fcard_seteq fempty_fsubsetI le_zero_eq not_gr_zero)

text \<open>
  Claim C8. The skill overlap is symmetric in its two skill sets, it is 1 for a
  non-empty set against itself, and it is 0 for two empty sets.
\<close>

theorem jaccard_similarity_laws:
  "jaccard_similarity A B = jaccard_similarity B A
   \<and> (A \<noteq> {||} \<longrightarrow> jaccard_similarity A A = 1.0)
   \<and> jaccard_similarity {||} {||} = 0.0"
proof (intro conjI impI)
  show "jaccard_similarity A B = jaccard_similarity B A"
    by (simp add: jaccard_similarity_def inf_commute sup_commute conj_commute)
next
  assume "A \<noteq> {||}"
  then have "0 < fcard A" by (rule fcard_pos)
  with \<open>A \<noteq> {||}\<close> show "jaccard_similarity A A = 1.0"
    by (simp add: jaccard_similarity_def)
next
  show "jaccard_similarity {||} {||} = 0.0"
    by (simp add: jaccard_similarity_def)
qed

theorem jaccard_similarity_laws_witness:
  "{|''java'', ''docker''|} \<noteq> {||}
   \<and> jaccard_similarity {|''java'', ''docker''|} {|''java'', ''docker''|} = 1.0
   \<and> jaccard_similarity {|''java''|} {|''docker'', ''java''|} = 1 / 2
   \<and> jaccard_similarity {|''docker'', ''java''|} {|''java''|} = 1 / 2"
proof -
  have ne: "{|''java'', ''docker''|} \<noteq> ({||} :: string fset)" by simp
  have half: "jaccard_similarity {|''java''|} {|''docker'', ''java''|} = 1 / 2" by code_simp
  from jaccard_similarity_laws [of "{|''java'', ''docker''|}" "{|''java'', ''docker''|}"] ne
  have one: "jaccard_similarity {|''java'', ''docker''|} {|''java'', ''docker''|} = 1.0" by blast
  from jaccard_similarity_laws [of "{|''docker'', ''java''|}" "{|''java''|}"] half
  have "jaccard_similarity {|''docker'', ''java''|} {|''java''|} = 1 / 2" by simp
  with ne half one show ?thesis by blast
qed

section \<open>The scoring loop, one candidate at a time\<close>

lemma prepare_candidate_Pass:
  assumes "prepare_candidate meta df filtered role resume_skills seen_jobs (sim, idx)
             = Pass (job_info, so, s) seen'"
  shows "idx < int (length meta)" and "idx \<notin> seen_jobs"
    and "iloc meta idx = Inr job_info" and "job_id job_info \<notin> seen_jobs"
    and "seen' = insert (job_id job_info) seen_jobs"
    and "filtered = [] \<or> idx \<in> set filtered \<or> role = ''general''"
    and "\<exists>row jd sk. iloc df idx = Inr row \<and> jd_text row = Text jd
            \<and> job_skills_of job_info jd = Inr sk
            \<and> so = jaccard_similarity resume_skills sk"
    and "s = composite sim so"
  using assms
  by (auto simp: prepare_candidate_def Let_def
           split: if_splits sum.splits cell.splits)

lemma prepare_candidate_Skip:
  assumes "prepare_candidate meta df filtered role resume_skills seen_jobs cand = Skip seen'"
  shows "seen_jobs \<subseteq> seen'"
  using assms
  by (auto simp: prepare_candidate_def Let_def
           split: prod.splits if_splits sum.splits cell.splits)

lemma min_threshold_floor: "0.15 < min_threshold role"
  by (simp add: min_threshold_def)

text \<open>
  Claim C1. A candidate that reaches the threshold test with composite score \<open>s\<close> is
  accepted if and only if \<open>s\<close> is at least the role threshold (0.25 for fullstack, 0.22
  for devops, 0.20 for general), or fewer than \<open>top_k\<close> results have been accepted so far
  and \<open>s\<close> is not below 0.15. So a candidate scoring exactly 0.15 is accepted while the
  accepted count is below \<open>top_k\<close>, and a candidate scoring below 0.15 is always skipped.
\<close>

theorem threshold_rule:
  assumes "prepare_candidate meta df filtered role resume_skills seen_jobs cand
             = Pass (job_info, so, s) seen'"
  shows "((\<exists>r. score_candidate meta df filtered role top_k resume_skills results seen_jobs cand
              = Accepted r seen')
          \<longleftrightarrow> (s \<ge> min_threshold role \<or> (int (length results) < top_k \<and> \<not> s < 0.15)))
       \<and> min_threshold ''fullstack'' = 0.25 \<and> min_threshold ''devops'' = 0.22
       \<and> min_threshold ''general'' = 0.20
       \<and> (s = 0.15 \<and> int (length results) < top_k
            \<longrightarrow> (\<exists>r. score_candidate meta df filtered role top_k resume_skills results seen_jobs cand
                      = Accepted r seen'))
       \<and> (s < 0.15
            \<longrightarrow> score_candidate meta df filtered role top_k resume_skills results seen_jobs cand
                  = Skipped seen')"
  using assms min_threshold_floor [of role]
  by (auto simp: score_candidate_def min_threshold_def)

theorem threshold_rule_witness:
  "prepare_candidate (ex_meta 10 20) (ex_csv 10 20) (filtered_index ''fullstack'' (ex_meta 10 20))
      ''fullstack'' {||} {} (15 / 77, 0)
     = Pass (\<lparr>job_id = 10, title = Text ''Java Backend Developer'', company = Text ''Acme'',
              location = Text ''Remote'', skills = Some (Text ''java,spring'')\<rparr>, 0, 0.15) {10}
   \<and> (\<exists>r. score_candidate (ex_meta 10 20) (ex_csv 10 20)
             (filtered_index ''fullstack'' (ex_meta 10 20)) ''fullstack'' 5 {||} [] {} (15 / 77, 0)
           = Accepted r {10})"
proof -
  have p: "prepare_candidate (ex_meta 10 20) (ex_csv 10 20)
      (filtered_index ''fullstack'' (ex_meta 10 20)) ''fullstack'' {||} {} (15 / 77, 0)
     = Pass (\<lparr>job_id = 10, title = Text ''Java Backend Developer'', company = Text ''Acme'',
              location = Text ''Remote'', skills = Some (Text ''java,spring'')\<rparr>, 0, 0.15) {10}"
    by code_simp
  from threshold_rule [OF p, of 5 "[]"] p show ?thesis by simp
qed

text \<open>
  Claim C2 says that a candidate with composite score 0.18 is dropped for every role even
  while fewer than \<open>top_k\<close> results are accepted. The search does otherwise: with role
  \<open>fullstack\<close>, \<open>top_k = 5\<close> and nothing accepted yet, the Java job of the two-job corpus
  scores 0.18 and is returned.
\<close>

theorem dropped_at_018_counterexample:
  "search (ex_store 10 20 [(18 / 77, 0), (1 / 10, 1)]) (ex_disk 10 20) ''hello'' 5 (Some ''fullstack'')
     = Inr [\<lparr>job_id = 10, title = Text ''Java Backend Developer'', company = Text ''Acme'',
             location = Text ''Remote'', skills = Some (Text ''java,spring''),
             score = 0.18, similarity = 18 / 77, skillOverlap = 0\<rparr>]"
  by code_simp

text \<open>
  Claim C2, amended. A candidate that reaches the threshold test with composite score
  0.18 is skipped exactly when \<open>top_k\<close> results or more have been accepted already; while
  fewer than \<open>top_k\<close> are accepted it is accepted, whatever the role.
\<close>

theorem relaxed_threshold_at_018:
  assumes "prepare_candidate meta df filtered role resume_skills seen_jobs cand
             = Pass (job_info, so, 0.18) seen'"
  shows "(score_candidate meta df filtered role top_k resume_skills results seen_jobs cand
            = Skipped seen' \<longleftrightarrow> top_k \<le> int (length results))
       \<and> (int (length results) < top_k
            \<longrightarrow> score_candidate meta df filtered role top_k resume_skills results seen_jobs cand
                  = Accepted (job_row.extend job_info (result.fields 0.18 (fst cand) so)) seen')"
  using assms
  by (auto simp: score_candidate_def min_threshold_def)

theorem relaxed_threshold_at_018_witness:
  "prepare_candidate (ex_meta 10 20) (ex_csv 10 20) (filtered_index ''devops'' (ex_meta 10 20))
      ''devops'' {||} {} (18 / 77, 1)
     = Pass (\<lparr>job_id = 20, title = Text ''DevOps Engineer'', company = Text ''Initech'',
              location = Text ''Berlin'', skills = Some (Text ''terraform,docker'')\<rparr>, 0, 0.18) {20}
   \<and> score_candidate (ex_meta 10 20) (ex_csv 10 20)
             (filtered_index ''devops'' (ex_meta 10 20)) ''devops'' 3 {||} [] {} (18 / 77, 1)
       = Accepted \<lparr>job_id = 20, title = Text ''DevOps Engineer'', company = Text ''Initech'',
              location = Text ''Berlin'', skills = Some (Text ''terraform,docker''),
              score = 0.18, similarity = 18 / 77, skillOverlap = 0\<rparr> {20}"
proof -
  have p: "prepare_candidate (ex_meta 10 20) (ex_csv 10 20)
      (filtered_index ''devops'' (ex_meta 10 20)) ''devops'' {||} {} (18 / 77, 1)
     = Pass (\<lparr>job_id = 20, title = Text ''DevOps Engineer'', company = Text ''Initech'',
              location = Text ''Berlin'', skills = Some (Text ''terraform,docker'')\<rparr>, 0, 0.18) {20}"
    by code_simp
  from relaxed_threshold_at_018 [OF p, of 3 "[]"] p show ?thesis
    by (simp add: job_row.defs result.defs)
qed

section \<open>The scoring loop as a whole\<close>

lemma score_candidate_Accepted:
  assumes "score_candidate meta df filtered role top_k resume_skills results seen_jobs cand
             = Accepted r seen'"
  shows "\<exists>job_info so.
           prepare_candidate meta df filtered role resume_skills seen_jobs cand
             = Pass (job_info, so, composite (fst cand) so) seen'
         \<and> r = job_row.extend job_info
                  (result.fields (composite (fst cand) so) (fst cand) so)"
proof -
  obtain sim idx where cand: "cand = (sim, idx)" by (cases cand)
  from assms obtain job_info so s where
    p: "prepare_candidate meta df filtered role resume_skills seen_jobs cand
          = Pass (job_info, so, s) seen'"
    and r: "r = job_row.extend job_info (result.fields s (fst cand) so)"
    by (auto simp: score_candidate_def split: gate.splits prod.splits if_splits)
  from p have "s = composite sim so"
    unfolding cand by (rule prepare_candidate_Pass(8))
  with p r cand show ?thesis by simp
qed

lemma score_candidate_Skipped:
  assumes "score_candidate meta df filtered role top_k resume_skills results seen_jobs cand
             = Skipped seen'"
  shows "seen_jobs \<subseteq> seen'"
proof (cases "prepare_candidate meta df filtered role resume_skills seen_jobs cand")
  case (Skip x)
  with assms have "x = seen'" by (simp add: score_candidate_def)
  with Skip show ?thesis by (auto dest: prepare_candidate_Skip)
next
  case (Raise e)
  with assms show ?thesis by (simp add: score_candidate_def)
next
  case (Pass t x)
  obtain job_info so s where t: "t = (job_info, so, s)" by (cases t)
  obtain sim idx where cand: "cand = (sim, idx)" by (cases cand)
  from assms Pass t have "x = seen'"
    by (simp add: score_candidate_def split: if_splits)
  moreover from Pass t cand have "x = insert (job_id job_info) seen_jobs"
    by (auto dest: prepare_candidate_Pass(5))
  ultimately show ?thesis by auto
qed

lemma score_candidate_Accepted_id:
  assumes "score_candidate meta df filtered role top_k resume_skills results seen_jobs cand
             = Accepted r seen'"
  shows "job_id r \<notin> seen_jobs" and "seen' = insert (job_id r) seen_jobs"
proof -
  obtain sim idx where cand: "cand = (sim, idx)" by (cases cand)
  from score_candidate_Accepted [OF assms] obtain job_info so where
    p: "prepare_candidate meta df filtered role resume_skills seen_jobs (sim, idx)
          = Pass (job_info, so, composite sim so) seen'"
    and r: "r = job_row.extend job_info (result.fields (composite sim so) sim so)"
    unfolding cand by auto
  from r have id: "job_id r = job_id job_info" by (simp add: job_row.defs)
  from prepare_candidate_Pass(4) [OF p] id show "job_id r \<notin> seen_jobs" by simp
  from prepare_candidate_Pass(5) [OF p] id show "seen' = insert (job_id r) seen_jobs" by simp
qed

lemma candidate_loop_all:
  assumes "candidate_loop meta df filtered role top_k resume_skills cands results seen_jobs
             = Inr out"
    and "\<forall>r\<in>set results. P r"
    and "\<And>cand results seen_jobs r seen'. cand \<in> set cands \<Longrightarrow>
           score_candidate meta df filtered role top_k resume_skills results seen_jobs cand
             = Accepted r seen' \<Longrightarrow> P r"
  shows "\<forall>r\<in>set out. P r"
  using assms
proof (induction cands arbitrary: results seen_jobs)
  case Nil
  then show ?case by simp
next
  case (Cons cand rest)
  have step: "P r"
    if "c \<in> set rest"
      and "score_candidate meta df filtered role top_k resume_skills res sj c = Accepted r s'"
    for c res sj r s'
    using that Cons.prems(3) [of c res sj r s'] by simp
  show ?case
  proof (cases "score_candidate meta df filtered role top_k resume_skills results seen_jobs cand")
    case (Skipped seen')
    with Cons.prems(1) have
      "candidate_loop meta df filtered role top_k resume_skills rest results seen' = Inr out"
      by simp
    from Cons.IH [OF this Cons.prems(2) step] show ?thesis .
  next
    case (Raised e)
    with Cons.prems(1) show ?thesis by simp
  next
    case (Accepted r seen')
    with Cons.prems(3) [of cand results seen_jobs r seen'] have "P r" by simp
    with Cons.prems(2) have all: "\<forall>x\<in>set (results @ [r]). P x" by simp
    show ?thesis
    proof (cases "int (length (results @ [r])) \<ge> top_k")
      case True
      with Accepted Cons.prems(1) have "out = results @ [r]" by simp
      with all show ?thesis by simp
    next
      case False
      with Accepted Cons.prems(1) have
        "candidate_loop meta df filtered role top_k resume_skills rest (results @ [r]) seen'
           = Inr out"
        by simp
      from Cons.IH [OF this all step] show ?thesis .
    qed
  qed
qed

lemma candidate_loop_distinct:
  assumes "candidate_loop meta df filtered role top_k resume_skills cands results seen_jobs
             = Inr out"
    and "distinct (map job_id results)"
    and "job_id ` set results \<subseteq> seen_jobs"
  shows "distinct (map job_id out)"
  using assms
proof (induction cands arbitrary: results seen_jobs)
  case Nil
  then show ?case by simp
next
  case (Cons cand rest)
  show ?case
  proof (cases "score_candidate meta df filtered role top_k resume_skills results seen_jobs cand")
    case (Skipped seen')
    with Cons.prems(1) have loop:
      "candidate_loop meta df filtered role top_k resume_skills rest results seen' = Inr out"
      by simp
    from score_candidate_Skipped [OF Skipped] Cons.prems(3)
    have "job_id ` set results \<subseteq> seen'" by blast
    from Cons.IH [OF loop Cons.prems(2) this] show ?thesis .
  next
    case (Raised e)
    with Cons.prems(1) show ?thesis by simp
  next
    case (Accepted r seen')
    from score_candidate_Accepted_id [OF Accepted]
    have new: "job_id r \<notin> seen_jobs" and seen': "seen' = insert (job_id r) seen_jobs" .
    from new Cons.prems(2,3) have dist: "distinct (map job_id (results @ [r]))" by auto
    from seen' Cons.prems(3) have sub: "job_id ` set (results @ [r]) \<subseteq> seen'" by auto
    show ?thesis
    proof (cases "int (length (results @ [r])) \<ge> top_k")
      case True
      with Accepted Cons.prems(1) have "out = results @ [r]" by simp
      with dist show ?thesis by simp
    next
      case False
      with Accepted Cons.prems(1) have
        "candidate_loop meta df filtered role top_k resume_skills rest (results @ [r]) seen'
           = Inr out"
        by simp
      from Cons.IH [OF this dist sub] show ?thesis .
    qed
  qed
qed


lemma validate_loop_prefix:
  "\<exists>m. validate_loop top_k jobs validated = validated @ take m jobs"
proof (induction jobs arbitrary: validated)
  case Nil
  then show ?case by simp
next
  case (Cons job rest)
  show ?case
  proof (cases "int (length (validated @ [job])) \<ge> top_k")
    case True
    then have "validate_loop top_k (job # rest) validated = validated @ take 1 (job # rest)"
      by simp
    then show ?thesis by blast
  next
    case False
    from Cons.IH [of "validated @ [job]"] obtain m where
      "validate_loop top_k rest (validated @ [job]) = (validated @ [job]) @ take m rest" ..
    with False have
      "validate_loop top_k (job # rest) validated = validated @ take (Suc m) (job # rest)"
      by simp
    then show ?thesis by blast
  qed
qed

text \<open>What a successful search went through.\<close>

lemma search_Inr:
  assumes "search vs dk query top_k role_arg = Inr rs"
  obtains ix meta cands df out m where
    "index vs = Some ix" and "job_metadata vs = Some meta"
    and "index_search ix query (search_k top_k meta) = Inr cands"
    and "read_jobs_csv dk = Inr df"
    and "candidate_loop meta df (filtered_index (resolve_role role_arg query) meta)
           (resolve_role role_arg query) top_k (extract_skills query) cands [] {} = Inr out"
    and "rs = take m (sort_key (\<lambda>r. - score r) out)" and "m \<le> nat top_k"
proof -
  from assms obtain ix meta cands df out where
    1: "index vs = Some ix" "job_metadata vs = Some meta"
       "index_search ix query (search_k top_k meta) = Inr cands"
       "read_jobs_csv dk = Inr df"
       "candidate_loop meta df (filtered_index (resolve_role role_arg query) meta)
           (resolve_role role_arg query) top_k (extract_skills query) cands [] {} = Inr out"
    and rs: "rs = take (nat top_k) (validate_loop top_k
                (take (nat (min (top_k * 2) (int (length (sort_key (\<lambda>r. - score r) out)))))
                   (sort_key (\<lambda>r. - score r) out)) [])"
    by (auto simp: search_def Let_def split: option.splits sum.splits)
  obtain j where "validate_loop top_k
                (take (nat (min (top_k * 2) (int (length (sort_key (\<lambda>r. - score r) out)))))
                   (sort_key (\<lambda>r. - score r) out)) []
      = [] @ take j (take (nat (min (top_k * 2) (int (length (sort_key (\<lambda>r. - score r) out)))))
                   (sort_key (\<lambda>r. - score r) out))"
    using validate_loop_prefix by blast
  with rs have eq: "rs = take (min (nat top_k) (min j (nat (min (top_k * 2) (int (length (sort_key (\<lambda>r. - score r) out)))))))
      (sort_key (\<lambda>r. - score r) out)"
    by (simp add: min.assoc)
  show thesis by (rule that [OF 1 eq]) simp
qed

lemma distinct_map_sort_key: "distinct (map g (sort_key f xs)) = distinct (map g xs)"
  by (simp add: distinct_map)

lemma distinct_map_take: "distinct (map g xs) \<Longrightarrow> distinct (map g (take m xs))"
  by (simp add: take_map [symmetric])

text \<open>
  Claim C6. The results of a search have pairwise different job ids: two index rows that
  resolve to the same job id never both appear, since a candidate whose job id is
  already in \<open>seen_jobs\<close> is skipped.
\<close>

theorem search_distinct_job_ids:
  assumes "search vs dk query top_k role_arg = Inr rs"
  shows "distinct (map job_id rs)
       \<and> (\<forall>i j. i < j \<and> j < length rs \<longrightarrow> job_id (rs ! i) \<noteq> job_id (rs ! j))"
proof -
  from assms obtain meta df cands out m where
    loop: "candidate_loop meta df (filtered_index (resolve_role role_arg query) meta)
           (resolve_role role_arg query) top_k (extract_skills query) cands [] {} = Inr out"
    and rs: "rs = take m (sort_key (\<lambda>r. - score r) out)"
    by (rule search_Inr)
  from candidate_loop_distinct [OF loop] have "distinct (map job_id out)" by simp
  then have d: "distinct (map job_id rs)"
    unfolding rs by (intro distinct_map_take) (simp only: distinct_map_sort_key)
  have "job_id (rs ! i) \<noteq> job_id (rs ! j)" if "i < j" "j < length rs" for i j
  proof -
    from that have "map job_id rs ! i \<noteq> map job_id rs ! j"
      using d by (simp add: nth_eq_iff_index_eq del: nth_map)
    with that show ?thesis by simp
  qed
  with d show ?thesis by blast
qed

theorem search_distinct_job_ids_witness:
  "search (ex_store 7 7 [(9 / 10, 0), (8 / 10, 1)]) (ex_disk 7 7) ''hello'' 5 (Some ''general'')
     = Inr [\<lparr>job_id = 7, title = Text ''Java Backend Developer'', company = Text ''Acme'',
             location = Text ''Remote'', skills = Some (Text ''java,spring''),
             score = 0.693, similarity = 9 / 10, skillOverlap = 0\<rparr>]
   \<and> distinct (map job_id
        [\<lparr>job_id = 7, title = Text ''Java Backend Developer'', company = Text ''Acme'',
          location = Text ''Remote'', skills = Some (Text ''java,spring''),
          score = 0.693, similarity = 9 / 10, skillOverlap = 0\<rparr>])"
proof -
  have s: "search (ex_store 7 7 [(9 / 10, 0), (8 / 10, 1)]) (ex_disk 7 7) ''hello'' 5 (Some ''general'')
     = Inr [\<lparr>job_id = 7, title = Text ''Java Backend Developer'', company = Text ''Acme'',
             location = Text ''Remote'', skills = Some (Text ''java,spring''),
             score = 0.693, similarity = 9 / 10, skillOverlap = 0\<rparr>]"
    by code_simp
  from search_distinct_job_ids [OF s] s show ?thesis by blast
qed

lemma filtered_index_range:
  "i \<in> set (filtered_index role meta) \<Longrightarrow> 0 \<le> i \<and> i < int (length meta)"
  by (auto simp: filtered_index_def split: if_splits)

lemma filtered_index_fullstack:
  "i \<in> set (filtered_index ''fullstack'' meta)
     \<longleftrightarrow> 0 \<le> i \<and> i < int (length meta) \<and> str_contains fullstack_pattern (title (meta ! nat i))"
proof
  assume "i \<in> set (filtered_index ''fullstack'' meta)"
  then show "0 \<le> i \<and> i < int (length meta) \<and> str_contains fullstack_pattern (title (meta ! nat i))"
    by (auto simp: filtered_index_def)
next
  assume a: "0 \<le> i \<and> i < int (length meta) \<and> str_contains fullstack_pattern (title (meta ! nat i))"
  then have "nat i \<in> set (filter (\<lambda>i. str_contains fullstack_pattern (title (meta ! i))) [0..<length meta])"
    by (simp add: nat_less_iff)
  then have "int (nat i) \<in> set (map int (filter (\<lambda>i. str_contains fullstack_pattern (title (meta ! i))) [0..<length meta]))"
    by (simp only: set_map) (rule imageI)
  then have "int (nat i) \<in> set (filtered_index ''fullstack'' meta)"
    by (simp add: filtered_index_def)
  with a show "i \<in> set (filtered_index ''fullstack'' meta)" by simp
qed

lemma filtered_index_devops:
  "i \<in> set (filtered_index ''devops'' meta)
     \<longleftrightarrow> 0 \<le> i \<and> i < int (length meta) \<and> str_contains devops_pattern (title (meta ! nat i))"
proof
  assume "i \<in> set (filtered_index ''devops'' meta)"
  then show "0 \<le> i \<and> i < int (length meta) \<and> str_contains devops_pattern (title (meta ! nat i))"
    by (auto simp: filtered_index_def)
next
  assume a: "0 \<le> i \<and> i < int (length meta) \<and> str_contains devops_pattern (title (meta ! nat i))"
  then have "nat i \<in> set (filter (\<lambda>i. str_contains devops_pattern (title (meta ! i))) [0..<length meta])"
    by (simp add: nat_less_iff)
  then have "int (nat i) \<in> set (map int (filter (\<lambda>i. str_contains devops_pattern (title (meta ! i))) [0..<length meta]))"
    by (simp only: set_map) (rule imageI)
  then have "int (nat i) \<in> set (filtered_index ''devops'' meta)"
    by (simp add: filtered_index_def)
  with a show "i \<in> set (filtered_index ''devops'' meta)" by simp
qed

lemma iloc_nonneg: "0 \<le> i \<Longrightarrow> iloc rows i = Inr r \<Longrightarrow> r = rows ! nat i"
  by (auto simp: iloc_def Let_def split: if_splits)

lemma accepted_row_filtered:
  assumes acc: "score_candidate meta df filtered role top_k resume_skills results seen_jobs cand
             = Accepted r seen'"
    and ne: "filtered \<noteq> []" and role: "role \<noteq> ''general''"
    and range: "\<forall>i\<in>set filtered. 0 \<le> i"
  shows "\<exists>i\<in>set filtered. job_row.truncate r = meta ! nat i"
proof -
  obtain sim idx where cand: "cand = (sim, idx)" by (cases cand)
  from score_candidate_Accepted [OF acc] obtain job_info so where
    p: "prepare_candidate meta df filtered role resume_skills seen_jobs (sim, idx)
          = Pass (job_info, so, composite sim so) seen'"
    and r: "r = job_row.extend job_info (result.fields (composite sim so) sim so)"
    unfolding cand by auto
  from prepare_candidate_Pass(6) [OF p] ne role have in_f: "idx \<in> set filtered" by simp
  with range have "0 \<le> idx" by blast
  from iloc_nonneg [OF this prepare_candidate_Pass(3) [OF p]] have "job_info = meta ! nat idx" .
  moreover from r have "job_row.truncate r = job_info" by (simp add: job_row.defs)
  ultimately show ?thesis using in_f by auto
qed

text \<open>
  Claim C5. When the role is \<open>fullstack\<close> or \<open>devops\<close> and the title pre-filter of that
  role keeps at least one job row, every result of the search is a row that the
  pre-filter kept; the pre-filter keeps exactly the rows whose title contains, ignoring
  case, one alternative of the role's pattern. With role \<open>general\<close> the filter keeps
  every row and the loop body skips no candidate for its title.
\<close>

theorem role_filter_is_gate:
  "(role \<in> {''fullstack'', ''devops''} \<and> resolve_role role_arg query = role
      \<and> job_metadata vs = Some meta \<and> filtered_index role meta \<noteq> []
      \<and> search vs dk query top_k role_arg = Inr rs
     \<longrightarrow> (\<forall>r\<in>set rs. \<exists>i\<in>set (filtered_index role meta).
              0 \<le> i \<and> i < int (length meta) \<and> job_row.truncate r = meta ! nat i))
   \<and> (i \<in> set (filtered_index ''fullstack'' meta)
        \<longleftrightarrow> 0 \<le> i \<and> i < int (length meta)
            \<and> str_contains fullstack_pattern (title (meta ! nat i)))
   \<and> (i \<in> set (filtered_index ''devops'' meta)
        \<longleftrightarrow> 0 \<le> i \<and> i < int (length meta)
            \<and> str_contains devops_pattern (title (meta ! nat i)))
   \<and> filtered_index ''general'' meta = map int [0..<length meta]
   \<and> prepare_candidate meta df filtered ''general'' resume_skills seen_jobs cand
       = prepare_candidate meta df [] ''general'' resume_skills seen_jobs cand"
proof (intro conjI impI)
  assume a: "role \<in> {''fullstack'', ''devops''} \<and> resolve_role role_arg query = role
      \<and> job_metadata vs = Some meta \<and> filtered_index role meta \<noteq> []
      \<and> search vs dk query top_k role_arg = Inr rs"
  then have s: "search vs dk query top_k role_arg = Inr rs" by simp
  from a have role: "role \<noteq> ''general''" by auto
  from s obtain meta' df cands out m where
    meta': "job_metadata vs = Some meta'"
    and loop: "candidate_loop meta' df (filtered_index (resolve_role role_arg query) meta')
           (resolve_role role_arg query) top_k (extract_skills query) cands [] {} = Inr out"
    and rs: "rs = take m (sort_key (\<lambda>r. - score r) out)"
    by (rule search_Inr)
  from meta' a have [simp]: "meta' = meta" by simp
  from a have [simp]: "resolve_role role_arg query = role" by simp
  from a have ne: "filtered_index role meta \<noteq> []" by simp
  have range: "\<forall>i\<in>set (filtered_index role meta). 0 \<le> i"
    using filtered_index_range by blast
  have "\<forall>r\<in>set out. \<exists>i\<in>set (filtered_index role meta). job_row.truncate r = meta ! nat i"
    using loop
    by (rule candidate_loop_all) (simp, simp, rule accepted_row_filtered [OF _ ne role range])
  moreover have "set rs \<subseteq> set out"
    unfolding rs using set_take_subset [of m "sort_key (\<lambda>r. - score r) out"] by simp
  ultimately show "\<forall>r\<in>set rs. \<exists>i\<in>set (filtered_index role meta).
              0 \<le> i \<and> i < int (length meta) \<and> job_row.truncate r = meta ! nat i"
    using filtered_index_range by blast
next
  show "(i \<in> set (filtered_index ''fullstack'' meta))
        = (0 \<le> i \<and> i < int (length meta)
            \<and> str_contains fullstack_pattern (title (meta ! nat i)))"
    by (rule filtered_index_fullstack)
next
  show "(i \<in> set (filtered_index ''devops'' meta))
        = (0 \<le> i \<and> i < int (length meta)
            \<and> str_contains devops_pattern (title (meta ! nat i)))"
    by (rule filtered_index_devops)
next
  show "filtered_index ''general'' meta = map int [0..<length meta]"
    by (simp add: filtered_index_def)
next
  show "prepare_candidate meta df filtered ''general'' resume_skills seen_jobs cand
       = prepare_candidate meta df [] ''general'' resume_skills seen_jobs cand"
    by (cases cand)
       (auto simp: prepare_candidate_def Let_def split: sum.splits cell.splits)
qed

theorem role_filter_is_gate_witness:
  "filtered_index ''fullstack'' (ex_meta 10 20) = [0]
   \<and> search (ex_store 10 20 [(9 / 10, 1), (8 / 10, 0)]) (ex_disk 10 20) ''hello'' 5
        (Some ''fullstack'')
       = Inr [\<lparr>job_id = 10, title = Text ''Java Backend Developer'', company = Text ''Acme'',
               location = Text ''Remote'', skills = Some (Text ''java,spring''),
               score = 0.616, similarity = 8 / 10, skillOverlap = 0\<rparr>]
   \<and> (\<exists>i\<in>set (filtered_index ''fullstack'' (ex_meta 10 20)).
         job_row.truncate
           \<lparr>job_id = 10, title = Text ''Java Backend Developer'', company = Text ''Acme'',
            location = Text ''Remote'', skills = Some (Text ''java,spring''),
            score = 0.616, similarity = 8 / 10, skillOverlap = 0\<rparr>
         = ex_meta 10 20 ! nat i)"
proof -
  have f: "filtered_index ''fullstack'' (ex_meta 10 20) = [0]"
    by code_simp
  have s: "search (ex_store 10 20 [(9 / 10, 1), (8 / 10, 0)]) (ex_disk 10 20) ''hello'' 5
        (Some ''fullstack'')
       = Inr [\<lparr>job_id = 10, title = Text ''Java Backend Developer'', company = Text ''Acme'',
               location = Text ''Remote'', skills = Some (Text ''java,spring''),
               score = 0.616, similarity = 8 / 10, skillOverlap = 0\<rparr>]"
    by code_simp
  have m: "job_metadata (ex_store 10 20 [(9 / 10, 1), (8 / 10, 0)]) = Some (ex_meta 10 20)"
    by (simp add: ex_store_def)
  have r: "resolve_role (Some ''fullstack'') ''hello'' = ''fullstack''"
    by (simp add: resolve_role_def)
  from role_filter_is_gate [of "''fullstack''" "Some ''fullstack''" "''hello''"
      "ex_store 10 20 [(9 / 10, 1), (8 / 10, 0)]" "ex_meta 10 20" "ex_disk 10 20" 5] f s m r
  show ?thesis by auto
qed

section \<open>Result bounds and termination without error\<close>













section \<open>Composite score and the row-index collision\<close>

lemma accepted_score:
  assumes acc: "score_candidate meta df filtered role top_k resume_skills results seen_jobs cand
             = Accepted r seen'"
  shows "score r = composite (similarity r) (skillOverlap r) \<and> similarity r = fst cand
       \<and> (\<exists>row jd sk. iloc meta (snd cand) = Inr (job_row.truncate r)
             \<and> iloc df (snd cand) = Inr row \<and> jd_text row = Text jd
             \<and> job_skills_of (job_row.truncate r) jd = Inr sk
             \<and> skillOverlap r = jaccard_similarity resume_skills sk)"
proof -
  obtain sim idx where cand: "cand = (sim, idx)" by (cases cand)
  from score_candidate_Accepted [OF acc] obtain job_info so where
    p: "prepare_candidate meta df filtered role resume_skills seen_jobs (sim, idx)
          = Pass (job_info, so, composite sim so) seen'"
    and r: "r = job_row.extend job_info (result.fields (composite sim so) sim so)"
    unfolding cand by auto
  from r have f: "score r = composite sim so" "similarity r = sim" "skillOverlap r = so"
    "job_row.truncate r = job_info"
    by (simp_all add: job_row.defs result.defs)
  from prepare_candidate_Pass(7) [OF p] obtain row jd sk where
    "iloc df idx = Inr row" "jd_text row = Text jd" "job_skills_of job_info jd = Inr sk"
    "so = jaccard_similarity resume_skills sk" by blast
  with f prepare_candidate_Pass(3) [OF p] show ?thesis
    unfolding cand by auto
qed

lemma jaccard_similarity_quotient:
  "jaccard_similarity A B =
     (if A = {||} \<and> B = {||} then 0
      else real (fcard (A |\<inter>| B)) / real (fcard (A |\<union>| B)))"
proof (cases "A = {||} \<and> B = {||}")
  case True
  then show ?thesis by (simp add: jaccard_similarity_def)
next
  case False
  then have "A |\<union>| B \<noteq> {||}" by auto
  then have "0 < fcard (A |\<union>| B)" by (rule fcard_pos)
  with False show ?thesis by (simp add: jaccard_similarity_def Let_def)
qed

text \<open>
  Claim C4. Every result of a search has the composite score
  \<open>min (1.1 * (0.70 * similarity + 0.30 * skillOverlap)) 1.0\<close>, where \<open>similarity\<close> is the
  raw score of its candidate and \<open>skillOverlap\<close> is the Jaccard similarity of the skills
  extracted from the query text and the skill set of the job; the Jaccard similarity is
  the size of the intersection over the size of the union, and 0 for two empty sets.
\<close>

theorem composite_score_formula:
  assumes "search vs dk query top_k role_arg = Inr rs" and "r \<in> set rs"
  shows "score r = min (1.1 * (0.70 * similarity r + 0.30 * skillOverlap r)) 1.0
       \<and> (\<exists>ix meta df cands idx row jd job_skills.
            index vs = Some ix \<and> job_metadata vs = Some meta \<and> read_jobs_csv dk = Inr df
            \<and> index_search ix query (search_k top_k meta) = Inr cands
            \<and> (similarity r, idx) \<in> set cands
            \<and> iloc meta idx = Inr (job_row.truncate r)
            \<and> iloc df idx = Inr row \<and> jd_text row = Text jd
            \<and> job_skills_of (job_row.truncate r) jd = Inr job_skills
            \<and> skillOverlap r = jaccard_similarity (extract_skills query) job_skills)
       \<and> (\<forall>A B. jaccard_similarity A B =
             (if A = {||} \<and> B = {||} then 0
              else real (fcard (A |\<inter>| B)) / real (fcard (A |\<union>| B))))"
proof -
  from assms(1) obtain ix meta cands df out m where
    ix: "index vs = Some ix" and meta: "job_metadata vs = Some meta"
    and cands: "index_search ix query (search_k top_k meta) = Inr cands"
    and df: "read_jobs_csv dk = Inr df"
    and loop: "candidate_loop meta df (filtered_index (resolve_role role_arg query) meta)
           (resolve_role role_arg query) top_k (extract_skills query) cands [] {} = Inr out"
    and rs: "rs = take m (sort_key (\<lambda>r. - score r) out)"
    by (rule search_Inr)
  let ?P = "\<lambda>r. score r = composite (similarity r) (skillOverlap r)
       \<and> (\<exists>idx row jd sk. (similarity r, idx) \<in> set cands
             \<and> iloc meta idx = Inr (job_row.truncate r)
             \<and> iloc df idx = Inr row \<and> jd_text row = Text jd
             \<and> job_skills_of (job_row.truncate r) jd = Inr sk
             \<and> skillOverlap r = jaccard_similarity (extract_skills query) sk)"
  have step: "?P x"
    if "cand \<in> set cands"
      and "score_candidate meta df (filtered_index (resolve_role role_arg query) meta)
             (resolve_role role_arg query) top_k (extract_skills query) res sj cand
           = Accepted x s'"
    for cand res sj x s'
  proof -
    from accepted_score [OF that(2)] have
      a: "score x = composite (similarity x) (skillOverlap x)" "similarity x = fst cand"
      and b: "\<exists>row jd sk. iloc meta (snd cand) = Inr (job_row.truncate x)
             \<and> iloc df (snd cand) = Inr row \<and> jd_text row = Text jd
             \<and> job_skills_of (job_row.truncate x) jd = Inr sk
             \<and> skillOverlap x = jaccard_similarity (extract_skills query) sk"
      by blast+
    from a(2) that(1) have "(similarity x, snd cand) \<in> set cands" by simp
    with a(1) b show ?thesis by blast
  qed
  have "\<forall>r\<in>set out. ?P r"
    using loop by (rule candidate_loop_all) (simp, rule step)
  moreover have "set rs \<subseteq> set out"
    unfolding rs using set_take_subset [of m "sort_key (\<lambda>r. - score r) out"] by simp
  ultimately have P: "?P r" using assms(2) by blast
  then have "score r = min (1.1 * (0.70 * similarity r + 0.30 * skillOverlap r)) 1.0"
    by (simp add: composite_def mult.commute)
  moreover from P ix meta df cands have "\<exists>ix meta df cands idx row jd job_skills.
            index vs = Some ix \<and> job_metadata vs = Some meta \<and> read_jobs_csv dk = Inr df
            \<and> index_search ix query (search_k top_k meta) = Inr cands
            \<and> (similarity r, idx) \<in> set cands
            \<and> iloc meta idx = Inr (job_row.truncate r)
            \<and> iloc df idx = Inr row \<and> jd_text row = Text jd
            \<and> job_skills_of (job_row.truncate r) jd = Inr job_skills
            \<and> skillOverlap r = jaccard_similarity (extract_skills query) job_skills"
    by blast
  ultimately show ?thesis using jaccard_similarity_quotient by blast
qed

theorem composite_score_formula_witness:
  "search (ex_store 10 20 [(5 / 10, 0), (1 / 10, 1)]) (ex_disk 10 20)
      ''I know React and Java'' 5 None
     = Inr [\<lparr>job_id = 10, title = Text ''Java Backend Developer'', company = Text ''Acme'',
             location = Text ''Remote'', skills = Some (Text ''java,spring''),
             score = 0.495, similarity = 5 / 10, skillOverlap = 1 / 3\<rparr>]
   \<and> (0.495 :: real) = min (1.1 * (0.70 * (5 / 10) + 0.30 * (1 / 3))) 1.0"
proof -
  have s: "search (ex_store 10 20 [(5 / 10, 0), (1 / 10, 1)]) (ex_disk 10 20)
      ''I know React and Java'' 5 None
     = Inr [\<lparr>job_id = 10, title = Text ''Java Backend Developer'', company = Text ''Acme'',
             location = Text ''Remote'', skills = Some (Text ''java,spring''),
             score = 0.495, similarity = 5 / 10, skillOverlap = 1 / 3\<rparr>]"
    by code_simp
  from composite_score_formula [OF s, of "\<lparr>job_id = 10, title = Text ''Java Backend Developer'', company = Text ''Acme'',
             location = Text ''Remote'', skills = Some (Text ''java,spring''),
             score = 0.495, similarity = 5 / 10, skillOverlap = 1 / 3\<rparr>"] s
  show ?thesis by simp
qed







section \<open>What a failed build leaves on disk\<close>

text \<open>
  Claim C9 says that a build which fails leaves none of the index blob, the metadata and
  the fingerprint newly persisted without the other two. The builder saves the three one
  after the other: where \<open>to_parquet\<close> raises, on a disk that held none of them, the
  index blob has been written and stays, without metadata and without fingerprint.
\<close>

theorem build_index_partial_counterexample:
  "fst (build_index (ex_env Written Refused Written) ex_fresh (ex_disk 1 2)) = Some SaveError
   \<and> index_file (ex_disk 1 2) = Missing
   \<and> index_file (snd (snd (build_index (ex_env Written Refused Written) ex_fresh (ex_disk 1 2))))
       = Holds (ex_index [])
   \<and> metadata_file (snd (snd (build_index (ex_env Written Refused Written) ex_fresh (ex_disk 1 2))))
       = Missing
   \<and> model_meta_file (snd (snd (build_index (ex_env Written Refused Written) ex_fresh (ex_disk 1 2))))
       = Missing"
  by (simp add: build_index_def read_jobs_csv_def save_index_def save_metadata_def
        write_file_def ex_env_def ex_fresh_def ex_disk_def ex_csv_def)

lemma write_file_cases:
  "write_file w content old = (err, f) \<Longrightarrow>
     (w = Written \<and> err = None \<and> f = Holds content)
     \<or> (w \<noteq> Written \<and> err = Some SaveError \<and> (f = old \<or> f = Damaged))"
  by (auto simp: write_file_def split: write_result.splits)

lemma save_index_cases:
  assumes "save_index env vs dk = (err, dk1)" and "index vs = Some ix"
  shows "metadata_file dk1 = metadata_file dk \<and> model_meta_file dk1 = model_meta_file dk
       \<and> ((write_index env = Written \<and> err = None \<and> index_file dk1 = Holds ix)
          \<or> (write_index env \<noteq> Written \<and> err = Some SaveError
              \<and> (dk1 = dk \<or> dk1 = dk\<lparr>index_file := Damaged\<rparr>)))"
  using assms
  by (auto simp: save_index_def write_file_def split: write_result.splits)

lemma save_metadata_cases:
  assumes "save_metadata env vs dk = (err, dk1)" and "job_metadata vs = Some meta"
  shows "index_file dk1 = index_file dk \<and> model_meta_file dk1 = model_meta_file dk
       \<and> ((to_parquet env = Written \<and> err = None \<and> metadata_file dk1 = Holds meta)
          \<or> (to_parquet env \<noteq> Written \<and> err = Some SaveError
              \<and> (metadata_file dk1 = metadata_file dk \<or> metadata_file dk1 = Damaged)))"
  using assms
  by (auto simp: save_metadata_def write_file_def split: write_result.splits)

lemma save_model_fingerprint_cases:
  assumes "save_model_fingerprint env vs source dk = (err, dk1)"
  shows "index_file dk1 = index_file dk \<and> metadata_file dk1 = metadata_file dk
       \<and> ((write_json env = Written \<and> err = None)
          \<or> (write_json env \<noteq> Written \<and> err = Some SaveError
              \<and> (model_meta_file dk1 = model_meta_file dk \<or> model_meta_file dk1 = Damaged)))"
  using assms
  by (auto simp: save_model_fingerprint_def Let_def write_file_def split: write_result.splits)

text \<open>
  Claim C9, amended. A build that fails because the source corpus is missing, or on the
  descriptions in embedding generation (as on an empty or null description text),
  raises and persists nothing: the disk is as it was. A build that fails in a save step
  raises too, and what the save steps before it wrote stays persisted: the index blob
  when the metadata write fails, the index blob and the metadata when the fingerprint
  write fails. The file of the failing step is as it was or damaged, and the files of
  later steps are untouched.
\<close>

theorem build_index_failure:
  assumes "build_index env vs dk = (Some e, vs', dk')"
  shows "(jobs_enhanced_csv dk = None \<and> jobs_csv dk = None
            \<longrightarrow> e = FileNotFoundError \<and> dk' = dk)
       \<and> (read_jobs_csv dk = Inr df \<and> encode_index env (map jd_text df) = None
            \<longrightarrow> e = ProviderError \<and> dk' = dk)
       \<and> (e \<noteq> SaveError \<longrightarrow> dk' = dk)
       \<and> (e = SaveError \<and> write_index env \<noteq> Written
            \<longrightarrow> (dk' = dk \<or> dk' = dk\<lparr>index_file := Damaged\<rparr>))
       \<and> (e = SaveError \<and> write_index env = Written \<and> to_parquet env \<noteq> Written
            \<longrightarrow> (\<exists>ix. index vs' = Some ix \<and> index_file dk' = Holds ix)
              \<and> (metadata_file dk' = metadata_file dk \<or> metadata_file dk' = Damaged)
              \<and> model_meta_file dk' = model_meta_file dk)
       \<and> (e = SaveError \<and> write_index env = Written \<and> to_parquet env = Written
            \<longrightarrow> (\<exists>ix. index vs' = Some ix \<and> index_file dk' = Holds ix)
              \<and> (\<exists>meta. job_metadata vs' = Some meta \<and> metadata_file dk' = Holds meta)
              \<and> (model_meta_file dk' = model_meta_file dk \<or> model_meta_file dk' = Damaged))"
proof (cases "read_jobs_csv dk")
  case (Inl e0)
  then have e0: "e0 = FileNotFoundError"
    by (auto simp: read_jobs_csv_def split: option.splits)
  from Inl assms e0 have "e = FileNotFoundError" "dk' = dk"
    by (simp_all add: build_index_def)
  with Inl show ?thesis by simp
next
  case (Inr csv)
  then have some: "\<not> (jobs_enhanced_csv dk = None \<and> jobs_csv dk = None)"
    by (auto simp: read_jobs_csv_def split: option.splits)
  show ?thesis
  proof (cases "encode_index env (map jd_text csv)")
    case None
    with Inr assms have "e = ProviderError" "dk' = dk"
      by (simp_all add: build_index_def Let_def)
    with some show ?thesis by simp
  next
    case (Some ix)
    define vs2 where
      "vs2 = vs\<lparr>job_metadata := Some (map job_row.truncate csv), index := Some ix\<rparr>"
    have ix2: "index vs2 = Some ix"
      and meta2: "job_metadata vs2 = Some (map job_row.truncate csv)"
      by (simp_all add: vs2_def)
    obtain err1 dk1 where s1: "save_index env vs2 dk = (err1, dk1)"
      by (cases "save_index env vs2 dk")
    obtain err2 dk2 where s2: "save_metadata env vs2 dk1 = (err2, dk2)"
      by (cases "save_metadata env vs2 dk1")
    obtain err3 dk3 where s3: "save_model_fingerprint env vs2 (csv_name dk) dk2 = (err3, dk3)"
      by (cases "save_model_fingerprint env vs2 (csv_name dk) dk2")
    note c1 = save_index_cases [OF s1 ix2]
    note c2 = save_metadata_cases [OF s2 meta2]
    note c3 = save_model_fingerprint_cases [OF s3]
    have b: "build_index env vs dk =
       (case err1 of Some e \<Rightarrow> (Some e, vs2, dk1)
        | None \<Rightarrow> (case err2 of Some e \<Rightarrow> (Some e, vs2, dk2)
                    | None \<Rightarrow> (err3, vs2, dk3)))"
      using Inr Some s1 s2 s3
      by (simp add: build_index_def Let_def vs2_def split: option.splits)
    have enc: "\<not> (read_jobs_csv dk = Inr df \<and> encode_index env (map jd_text df) = None)"
      using Inr Some by auto
    show ?thesis
    proof (cases err1)
      case (Some e1)
      with b assms have "e = e1" "vs' = vs2" "dk' = dk1" by simp_all
      with Some c1 some enc show ?thesis by auto
    next
      case None
      note n1 = None
      show ?thesis
      proof (cases err2)
        case (Some e2)
        with n1 b assms have "e = e2" "vs' = vs2" "dk' = dk2" by simp_all
        with Some n1 c1 c2 some enc ix2 show ?thesis by auto
      next
        case None
        with n1 b assms have "err3 = Some e" "vs' = vs2" "dk' = dk3" by simp_all
        with None n1 c1 c2 c3 some enc ix2 meta2 show ?thesis by auto
      qed
    qed
  qed
qed

theorem build_index_failure_witness:
  "NaN \<in> set (map jd_text (ex_gap_csv (Text ''terraform,docker'') NaN))
   \<and> build_index (ex_env Written Written Written) ex_fresh
        (ex_gap_disk (Text ''terraform,docker'') NaN)
       = (Some ProviderError,
          ex_fresh\<lparr>job_metadata :=
             Some (map job_row.truncate (ex_gap_csv (Text ''terraform,docker'') NaN))\<rparr>,
          ex_gap_disk (Text ''terraform,docker'') NaN)
   \<and> ProviderError \<noteq> SaveError"
proof -
  have n: "NaN \<in> set (map jd_text (ex_gap_csv (Text ''terraform,docker'') NaN))"
    by (simp add: ex_gap_csv_def)
  have r: "read_jobs_csv (ex_gap_disk (Text ''terraform,docker'') NaN)
             = Inr (ex_gap_csv (Text ''terraform,docker'') NaN)"
    by (simp add: read_jobs_csv_def ex_gap_disk_def)
  from n have enc: "encode_index (ex_env Written Written Written)
             (map jd_text (ex_gap_csv (Text ''terraform,docker'') NaN)) = None"
    by (simp add: ex_env_def)
  obtain err vs' dk' where
    b: "build_index (ex_env Written Written Written) ex_fresh
          (ex_gap_disk (Text ''terraform,docker'') NaN) = (err, vs', dk')"
    by (cases "build_index (ex_env Written Written Written) ex_fresh
          (ex_gap_disk (Text ''terraform,docker'') NaN)")
  from b r enc have err: "err = Some ProviderError"
    and vs': "vs' = ex_fresh\<lparr>job_metadata :=
             Some (map job_row.truncate (ex_gap_csv (Text ''terraform,docker'') NaN))\<rparr>"
    by (simp_all add: build_index_def Let_def)
  from b err have b': "build_index (ex_env Written Written Written) ex_fresh
          (ex_gap_disk (Text ''terraform,docker'') NaN) = (Some ProviderError, vs', dk')"
    by simp
  from build_index_failure [OF b', of "ex_gap_csv (Text ''terraform,docker'') NaN"] r enc
  have "dk' = ex_gap_disk (Text ''terraform,docker'') NaN" by simp
  with b' vs' n show ?thesis by simp
qed

end
